theory Spec2Isabelle
  imports Complex_Main "HOL-Library.Sublist"
begin

section \<open>Metamorpics: the image conversion page (src/app/page.tsx)\<close>

text \<open>
  The page is one React component, \<open>Home\<close>, holding eight \<open>useState\<close> slots and four
  handlers: \<open>onDrop\<close>, \<open>handleConvert\<close>, \<open>handleDownload\<close> and the two inline
  \<open>onChange\<close> setters. The handlers are \<open>async\<close>: each \<open>await\<close> and each browser
  callback (\<open>img.onload\<close>, the \<open>canvas.toBlob\<close> callback) is a suspension point. The model
  threads one record through the handlers; a suspended handler is a \<open>task\<close> in the list
  \<open>pending\<close>, carrying the closure variables it captured when it was invoked.
\<close>

subsection \<open>Data\<close>

text \<open>A \<open>Blob\<close> and a \<open>File\<close> of the browser: the MIME type, the bytes, and for a file its name.\<close>

record Blob =
  blob_type :: string
  blob_bytes :: "nat list"

record File =
  file_name :: string
  file_type :: string
  file_bytes :: "nat list"

text \<open>\<open>interface ImageCompressionOptions\<close>: the three fields \<open>handleConvert\<close> passes.\<close>

record ImageCompressionOptions =
  maxSizeMB :: nat
  maxWidthOrHeight :: nat
  useWebWorker :: bool

text \<open>\<open>interface HeicToOptions\<close>; \<open>quality\<close> is the fraction \<open>quality / 100\<close>.\<close>

record HeicToOptions =
  opt_blob :: File
  opt_type :: string
  opt_quality :: real

text \<open>How a promise settles: fulfilled with a value, or rejected with an error.\<close>

datatype 'a settled = Fulfilled 'a | Rejected string

text \<open>
  The canvas element \<open>handleConvert\<close> creates: its size, and the image drawn on it at
  \<open>(0, 0)\<close> (none when \<open>getContext('2d')\<close> gave \<open>null\<close> and \<open>ctx?.drawImage\<close> was skipped).
\<close>

record canvas =
  canvas_width :: nat
  canvas_height :: nat
  canvas_image :: "File option"

text \<open>
  The collaborators outside the repository, as parameters. The three module-level handles
  \<open>imageCompression\<close>, \<open>heicTo\<close> and \<open>isHeic\<close> start as \<open>null\<close> (\<open>None\<close>) and are
  filled in when the dynamic \<open>import\<close> resolves; a loaded handle is the function that
  tells how its promise settles. \<open>getContext2d\<close> says whether \<open>canvas.getContext('2d')\<close>
  gives a context; \<open>image_decode\<close> gives the natural width and height with which
  \<open>img.onload\<close> fires (\<open>None\<close>: the image does not load, and there is no \<open>onerror\<close>
  handler); \<open>canvas_toBlob\<close> is the blob handed to the \<open>toBlob\<close> callback (\<open>None\<close>: the
  callback receives \<open>null\<close>).
\<close>

record services =
  imageCompression :: "(File \<Rightarrow> ImageCompressionOptions \<Rightarrow> File settled) option"
  heicTo :: "(HeicToOptions \<Rightarrow> Blob settled) option"
  isHeic :: "(File \<Rightarrow> bool settled) option"
  getContext2d :: bool
  image_decode :: "File \<Rightarrow> (nat \<times> nat) option"
  canvas_toBlob :: "canvas \<Rightarrow> string \<Rightarrow> real \<Rightarrow> Blob option"

text \<open>The calls the page makes to its collaborators, in the order it makes them.\<close>

datatype call =
    CallIsHeic File
  | CallHeicTo HeicToOptions
  | CallImageCompression File ImageCompressionOptions
  | CallToBlob canvas string real
  | CallSaveAs Blob string

text \<open>
  The two \<open>console.error\<close> sites: the \<open>catch\<close> of \<open>handleConvert\<close> and the \<open>catch\<close> of
  \<open>onDrop\<close>, each with the error it caught.
\<close>

datatype log = ConvertError string | FileCheckError string

text \<open>
  A suspended handler with what its closure captured.
  \<^item> \<open>AwaitIsHeic\<close>: \<open>onDrop\<close> at \<open>await isHeic(file)\<close>; the promise, the file, and the
    \<open>targetFormat\<close> of the render that created the callback.
  \<^item> \<open>AwaitHeicTo\<close>: \<open>handleConvert\<close> at \<open>await heicTo(...)\<close>.
  \<^item> \<open>AwaitImageCompression\<close>: \<open>handleConvert\<close> at \<open>await imageCompression(...)\<close>, with the
    captured \<open>targetFormat\<close> and \<open>quality\<close>.
  \<^item> \<open>AwaitImageLoad\<close>: \<open>img.src\<close> is set and \<open>img.onload\<close> has not fired; the compressed
    file, the captured \<open>ctx\<close> (present or \<open>null\<close>), \<open>targetFormat\<close> and \<open>quality\<close>.
  \<^item> \<open>AwaitToBlob\<close>: \<open>canvas.toBlob\<close> was called and its callback has not run; the value
    the callback will receive.
\<close>

datatype task =
    AwaitIsHeic "bool settled" File string
  | AwaitHeicTo "Blob settled"
  | AwaitImageCompression "File settled" string int
  | AwaitImageLoad File bool string int
  | AwaitToBlob "Blob option"

text \<open>
  What \<open>URL.createObjectURL\<close> was given: a \<open>File\<close> or a \<open>Blob\<close>. An object URL is modelled by
  its serial number together with the object it was created for, to which it resolves
  while it is live.
\<close>

datatype object = OfFile File | OfBlob Blob

type_synonym object_url = "nat \<times> object"

text \<open>
  The state: the \<open>useState\<close> slots of \<open>Home\<close> under their own names (\<open>isClient\<close>, which
  only decides whether the page renders, is left out), then the browser's side: the object URLs created by
  \<open>URL.createObjectURL\<close> and still live, the next URL to hand out, the console, the calls
  made so far and the suspended handlers.
\<close>

record home =
  quality :: int
  targetFormat :: string
  isConverting :: bool
  previewUrl :: "object_url option"
  convertedBlob :: "Blob option"
  originalFileName :: string
  selectedFile :: "File option"
  isHeicFile :: bool
  object_urls :: "object_url list"
  next_url :: nat
  console :: "log list"
  calls :: "call list"
  pending :: "task list"

text \<open>The initial values of the \<open>useState\<close> calls, in a fresh browser session.\<close>

definition initial :: home where
  "initial = \<lparr> quality = 80, targetFormat = ''image/jpeg'', isConverting = False,
     previewUrl = None, convertedBlob = None, originalFileName = [], selectedFile = None,
     isHeicFile = False, object_urls = [], next_url = 0, console = [], calls = [],
     pending = [] \<rparr>"

text \<open>
  \<open>STANDARD_FORMATS\<close> and \<open>HEIC_FORMATS\<close>: the groups in source order, each with the
  \<open>value\<close> fields of its options (the group keys and the labels are display text).
\<close>

definition STANDARD_FORMATS :: "string list list" where
  "STANDARD_FORMATS =
     [[''image/jpeg'', ''image/png'', ''image/gif''],
      [''image/webp'', ''image/avif''],
      [''image/bmp'', ''image/tiff'']]"

definition HEIC_FORMATS :: "string list list" where
  "HEIC_FORMATS = [[''image/jpeg'', ''image/png'']]"

text \<open>\<open>const formats = isHeicFile ? HEIC_FORMATS : STANDARD_FORMATS\<close>, flattened to the option values.\<close>

definition formats :: "home \<Rightarrow> string list" where
  "formats s = concat (if isHeicFile s then HEIC_FORMATS else STANDARD_FORMATS)"

subsection \<open>JavaScript primitives the handlers use\<close>

text \<open>
  \<open>String.prototype.split\<close> with a one-character separator: the pieces between the
  separators, never an empty list (\<open>''.split('.')\<close> is \<open>['']\<close>).
\<close>

fun split_js :: "char \<Rightarrow> string \<Rightarrow> string list" where
  "split_js c [] = [[]]"
| "split_js c (x # xs) =
     (if x = c then [] # split_js c xs
      else (case split_js c xs of [] \<Rightarrow> [[x]] | y # ys \<Rightarrow> (x # y) # ys))"

text \<open>\<open>xs[i]\<close>: \<open>undefined\<close> (\<open>None\<close>) out of range.\<close>

fun index_js :: "'a list \<Rightarrow> nat \<Rightarrow> 'a option" where
  "index_js [] i = None"
| "index_js (x # xs) 0 = Some x"
| "index_js (x # xs) (Suc i) = index_js xs i"

text \<open>A \<open>${...}\<close> slot of a template literal: \<open>undefined\<close> prints as the word.\<close>

definition template :: "string option \<Rightarrow> string" where
  "template v = (case v of None \<Rightarrow> ''undefined'' | Some t \<Rightarrow> t)"

text \<open>
  \<open>URL.createObjectURL(obj)\<close>: a fresh URL for \<open>obj\<close>, live from now on. The page never
  calls \<open>URL.revokeObjectURL\<close>, so nothing in the model removes a URL.
\<close>

definition createObjectURL :: "object \<Rightarrow> home \<Rightarrow> object_url \<times> home" where
  "createObjectURL obj s =
     ((next_url s, obj),
      s\<lparr> object_urls := object_urls s @ [(next_url s, obj)], next_url := Suc (next_url s) \<rparr>)"

subsection \<open>The setters bound to the controls\<close>

text \<open>
  The value of an \<open><input type="range" min=lo max=hi>\<close> after the user asked for position
  \<open>v\<close>: the element keeps its value between its \<open>min\<close> and \<open>max\<close> attributes, and with the
  default step of 1 it is a whole number.
\<close>

definition range_value :: "int \<Rightarrow> int \<Rightarrow> int \<Rightarrow> int" where
  "range_value lo hi v = max lo (min hi v)"

text \<open>\<open>onChange={(e) => setQuality(Number(e.target.value))}\<close>: the state setter, as it is.\<close>

definition setQuality :: "int \<Rightarrow> home \<Rightarrow> home" where
  "setQuality v s = s\<lparr> quality := v \<rparr>"

text \<open>\<open>onChange={(e) => setTargetFormat(e.target.value)}\<close>.\<close>

definition setTargetFormat :: "string \<Rightarrow> home \<Rightarrow> home" where
  "setTargetFormat v s = s\<lparr> targetFormat := v \<rparr>"

subsection \<open>handleDownload\<close>

definition handleDownload :: "home \<Rightarrow> home" where
  "handleDownload s =
     (case convertedBlob s of
        None \<Rightarrow> s
      | Some b \<Rightarrow>
          let extension = index_js (split_js CHR ''/'' (targetFormat s)) 1;
              fileName =
                (if originalFileName s = []
                 then ''converted-image.'' @ template extension
                 else template (index_js (split_js CHR ''.'' (originalFileName s)) 0)
                        @ ''.'' @ template extension)
          in s\<lparr> calls := calls s @ [CallSaveAs b fileName] \<rparr>)"

subsection \<open>handleConvert\<close>

text \<open>
  The synchronous part, up to the first \<open>await\<close>. With neither branch taken the \<open>try\<close>
  block is left at once and \<open>finally\<close> runs.
\<close>

definition handleConvert :: "services \<Rightarrow> home \<Rightarrow> home" where
  "handleConvert sv s =
     (case selectedFile s of
        None \<Rightarrow> s
      | Some f \<Rightarrow>
          let s1 = s\<lparr> isConverting := True, previewUrl := None, convertedBlob := None \<rparr>;
              generic =
                (case imageCompression sv of
                   Some ic \<Rightarrow>
                     let opts = \<lparr> maxSizeMB = 1, maxWidthOrHeight = 1920, useWebWorker = True \<rparr>
                     in s1\<lparr> calls := calls s1 @ [CallImageCompression f opts],
                            pending := pending s1 @
                              [AwaitImageCompression (ic f opts) (targetFormat s) (quality s)] \<rparr>
                 | None \<Rightarrow> s1\<lparr> isConverting := False \<rparr>)
          in if isHeicFile s
             then (case heicTo sv of
                     Some h \<Rightarrow>
                       let opts = \<lparr> opt_blob = f, opt_type = targetFormat s,
                                    opt_quality = real_of_int (quality s) / 100 \<rparr>
                       in s1\<lparr> calls := calls s1 @ [CallHeicTo opts],
                              pending := pending s1 @ [AwaitHeicTo (h opts)] \<rparr>
                   | None \<Rightarrow> generic)
             else generic)"

text \<open>
  After \<open>await heicTo(...)\<close>: on fulfilment the two setters, on rejection the \<open>catch\<close>;
  \<open>finally\<close> in both.
\<close>

definition heicTo_settled :: "Blob settled \<Rightarrow> home \<Rightarrow> home" where
  "heicTo_settled r s =
     (case r of
        Fulfilled b \<Rightarrow>
          let (u, s1) = createObjectURL (OfBlob b) (s\<lparr> convertedBlob := Some b \<rparr>)
          in s1\<lparr> previewUrl := Some u, isConverting := False \<rparr>
      | Rejected e \<Rightarrow> s\<lparr> console := console s @ [ConvertError e], isConverting := False \<rparr>)"

text \<open>
  After \<open>await imageCompression(...)\<close>: on fulfilment the canvas, the context and the image
  are created, \<open>onload\<close> is installed, \<open>img.src\<close> is set to a new object URL and the handler
  \<open>return\<close>s, which runs \<open>finally\<close>; on rejection the \<open>catch\<close>, then \<open>finally\<close>.
\<close>

definition imageCompression_settled :: "services \<Rightarrow> File settled \<Rightarrow> string \<Rightarrow> int \<Rightarrow> home \<Rightarrow> home" where
  "imageCompression_settled sv r tf q s =
     (case r of
        Fulfilled compressedFile \<Rightarrow>
          let (u, s1) = createObjectURL (OfFile compressedFile) s
          in s1\<lparr> pending := pending s1 @ [AwaitImageLoad compressedFile (getContext2d sv) tf q],
                 isConverting := False \<rparr>
      | Rejected e \<Rightarrow> s\<lparr> console := console s @ [ConvertError e], isConverting := False \<rparr>)"

text \<open>\<open>img.onload\<close>: size the canvas to the image, draw it, call \<open>canvas.toBlob\<close>.\<close>

definition img_onload :: "services \<Rightarrow> File \<Rightarrow> bool \<Rightarrow> string \<Rightarrow> int \<Rightarrow> home \<Rightarrow> home" where
  "img_onload sv compressedFile ctx tf q s =
     (case image_decode sv compressedFile of
        None \<Rightarrow> s
      | Some (w, h) \<Rightarrow>
          let cv = \<lparr> canvas_width = w, canvas_height = h,
                     canvas_image = (if ctx then Some compressedFile else None) \<rparr>;
              fraction = real_of_int q / 100
          in s\<lparr> calls := calls s @ [CallToBlob cv tf fraction],
                pending := pending s @ [AwaitToBlob (canvas_toBlob sv cv tf fraction)] \<rparr>)"

text \<open>The callback handed to \<open>canvas.toBlob\<close>.\<close>

definition toBlob_callback :: "Blob option \<Rightarrow> home \<Rightarrow> home" where
  "toBlob_callback r s =
     (case r of
        Some b \<Rightarrow>
          let (u, s1) = createObjectURL (OfBlob b) (s\<lparr> convertedBlob := Some b \<rparr>)
          in s1\<lparr> previewUrl := Some u, isConverting := False \<rparr>
      | None \<Rightarrow> s\<lparr> isConverting := False \<rparr>)"

subsection \<open>onDrop\<close>

text \<open>
  The synchronous part: no file, nothing; \<open>isHeic\<close> not loaded, the \<open>throw\<close> lands in the
  \<open>catch\<close>; otherwise the handler suspends at \<open>await isHeic(file)\<close>.
\<close>

definition onDrop :: "services \<Rightarrow> File list \<Rightarrow> home \<Rightarrow> home" where
  "onDrop sv acceptedFiles s =
     (case acceptedFiles of
        [] \<Rightarrow> s
      | f # rest \<Rightarrow>
          (case isHeic sv of
             None \<Rightarrow> s\<lparr> console := console s @ [FileCheckError ''HEIC kontrol fonksiyonu yuklenemedi''] \<rparr>
           | Some ih \<Rightarrow>
               s\<lparr> calls := calls s @ [CallIsHeic f],
                   pending := pending s @ [AwaitIsHeic (ih f) f (targetFormat s)] \<rparr>))"

text \<open>After \<open>await isHeic(file)\<close>: the six setters in source order, or the \<open>catch\<close>.\<close>

definition isHeic_settled :: "bool settled \<Rightarrow> File \<Rightarrow> string \<Rightarrow> home \<Rightarrow> home" where
  "isHeic_settled r f tf s =
     (case r of
        Fulfilled fileIsHeic \<Rightarrow>
          let s1 = s\<lparr> isHeicFile := fileIsHeic,
                       targetFormat := (if fileIsHeic then ''image/jpeg'' else tf),
                       originalFileName := file_name f,
                       selectedFile := Some f \<rparr>;
              (u, s2) = createObjectURL (OfFile f) s1
          in s2\<lparr> previewUrl := Some u, convertedBlob := None \<rparr>
      | Rejected e \<Rightarrow> s\<lparr> console := console s @ [FileCheckError e] \<rparr>)"

subsection \<open>The event loop\<close>

text \<open>Resuming a suspended handler.\<close>

fun run_task :: "services \<Rightarrow> task \<Rightarrow> home \<Rightarrow> home" where
  "run_task sv (AwaitIsHeic r f tf) s = isHeic_settled r f tf s"
| "run_task sv (AwaitHeicTo r) s = heicTo_settled r s"
| "run_task sv (AwaitImageCompression r tf q) s = imageCompression_settled sv r tf q s"
| "run_task sv (AwaitImageLoad cf ctx tf q) s = img_onload sv cf ctx tf q s"
| "run_task sv (AwaitToBlob r) s = toBlob_callback r s"

text \<open>The browser resumes the oldest suspended handler; with none suspended nothing happens.\<close>

definition resume :: "services \<Rightarrow> home \<Rightarrow> home" where
  "resume sv s =
     (case pending s of
        [] \<Rightarrow> s
      | t # ts \<Rightarrow> run_task sv t (s\<lparr> pending := ts \<rparr>))"

text \<open>
  The buttons as rendered: the convert button carries
  \<open>disabled={!selectedFile || isConverting}\<close>, and the download button is rendered only
  under \<open>convertedBlob &&\<close>.
\<close>

definition convert_click :: "services \<Rightarrow> home \<Rightarrow> home" where
  "convert_click sv s =
     (if selectedFile s = None \<or> isConverting s then s else handleConvert sv s)"

definition download_click :: "home \<Rightarrow> home" where
  "download_click s = (if convertedBlob s = None then s else handleDownload s)"

text \<open>
  What can happen on the page: a drop on the drop zone, a choice in the format selector, a
  move of the quality slider (the \<open>input\<close> of type \<open>range\<close> with \<open>min="0"\<close> and \<open>max="100"\<close>,
  whose value is what \<open>onChange\<close> passes to \<open>setQuality\<close>), a click on either button, or
  the browser resuming a suspended handler. A session is a list of such events, handled
  in order.
\<close>

datatype event =
    Drop "File list"
  | SelectFormat string
  | Slide int
  | ClickConvert
  | ClickDownload
  | Resume

fun fire :: "services \<Rightarrow> event \<Rightarrow> home \<Rightarrow> home" where
  "fire sv (Drop acceptedFiles) s = onDrop sv acceptedFiles s"
| "fire sv (SelectFormat v) s = setTargetFormat v s"
| "fire sv (Slide v) s = setQuality (range_value 0 100 v) s"
| "fire sv ClickConvert s = convert_click sv s"
| "fire sv ClickDownload s = download_click s"
| "fire sv Resume s = resume sv s"

fun session :: "services \<Rightarrow> event list \<Rightarrow> home \<Rightarrow> home" where
  "session sv [] s = s"
| "session sv (e # es) s = session sv es (fire sv e s)"

subsection \<open>Vocabulary of the statements\<close>

text \<open>The text of \<open>t\<close> before its first \<open>c\<close> (all of \<open>t\<close> when it has none).\<close>

definition before_first :: "char \<Rightarrow> string \<Rightarrow> string" where
  "before_first c t = takeWhile (\<lambda>x. x \<noteq> c) t"

text \<open>The text of \<open>t\<close> before its last \<open>c\<close> (empty when it has none).\<close>

definition before_last :: "char \<Rightarrow> string \<Rightarrow> string" where
  "before_last c t = rev (tl (dropWhile (\<lambda>x. x \<noteq> c) (rev t)))"

text \<open>
  The subtype of a MIME type as \<open>handleDownload\<close> reads it: the text between the first
  \<open>/\<close> and the next one (or the end), and the word \<open>undefined\<close> when there is no \<open>/\<close>.
\<close>

definition subtype :: "string \<Rightarrow> string" where
  "subtype t =
     (if CHR ''/'' \<in> set t
      then before_first CHR ''/'' (tl (dropWhile (\<lambda>x. x \<noteq> CHR ''/'') t))
      else ''undefined'')"

text \<open>
  A file name without its extension: the text before the last \<open>.\<close>, and the whole name
  when it has no \<open>.\<close>.
\<close>

definition stem :: "string \<Rightarrow> string" where
  "stem t = (if CHR ''.'' \<in> set t then before_last CHR ''.'' t else t)"

subsection \<open>Concrete files, collaborators and sessions\<close>

definition photo_heic :: File where
  "photo_heic = \<lparr> file_name = ''photo.heic'', file_type = ''image/heic'', file_bytes = [0, 0, 0, 24] \<rparr>"

definition photo_png :: File where
  "photo_png = \<lparr> file_name = ''photo.png'', file_type = ''image/png'', file_bytes = [137, 80, 78, 71] \<rparr>"

definition holiday_png :: File where
  "holiday_png = \<lparr> file_name = ''holiday.2024.png'', file_type = ''image/png'', file_bytes = [137, 80] \<rparr>"

definition compressed_png :: File where
  "compressed_png = \<lparr> file_name = ''photo.png'', file_type = ''image/png'', file_bytes = [137] \<rparr>"

definition jpeg_blob :: Blob where
  "jpeg_blob = \<lparr> blob_type = ''image/jpeg'', blob_bytes = [255, 216] \<rparr>"

text \<open>
  A raster primitive that encodes the types in \<open>supported\<close> and, asked for any other
  type, answers with PNG: the substitution section 9 of the specification reports of
  browsers. It is one possible value of the parameter \<open>canvas_toBlob\<close>.
\<close>

definition toBlob_supporting :: "string list \<Rightarrow> canvas \<Rightarrow> string \<Rightarrow> real \<Rightarrow> Blob option" where
  "toBlob_supporting supported cv t q =
     Some \<lparr> blob_type = (if t \<in> set supported then t else ''image/png''), blob_bytes = [] \<rparr>"

text \<open>Collaborators that are all loaded and all succeed.\<close>

definition loaded :: services where
  "loaded =
     \<lparr> imageCompression = Some (\<lambda>f opts. Fulfilled compressed_png),
       heicTo = Some (\<lambda>opts. Fulfilled \<lparr> blob_type = opt_type opts, blob_bytes = [255, 216] \<rparr>),
       isHeic = Some (\<lambda>f. Fulfilled (file_type f = ''image/heic'')),
       getContext2d = True,
       image_decode = (\<lambda>f. Some (4, 3)),
       canvas_toBlob = toBlob_supporting [''image/png'', ''image/jpeg'', ''image/webp''] \<rparr>"

text \<open>A PNG (a HEIC) has been dropped on a fresh page and classified.\<close>

definition png_selected :: home where
  "png_selected = session loaded [Drop [photo_png], Resume] initial"

definition heic_selected :: home where
  "heic_selected = session loaded [Drop [photo_heic], Resume] initial"

text \<open>Then a click on convert, and the conversion has run to its end.\<close>

definition heic_converted :: home where
  "heic_converted = session loaded [ClickConvert, Resume] heic_selected"

text \<open>A file with two dots in its name, converted to WebP.\<close>

definition holiday_converted :: home where
  "holiday_converted =
     session loaded
       [Drop [holiday_png], Resume, SelectFormat ''image/webp'',
        ClickConvert, Resume, Resume, Resume] initial"

text \<open>The page before \<open>import('browser-image-compression')\<close> has resolved.\<close>

definition unloaded_compression :: services where
  "unloaded_compression = loaded\<lparr> imageCompression := None \<rparr>"

text \<open>WebP is chosen on a fresh page, then a PNG is dropped.\<close>

definition webp_then_png :: home where
  "webp_then_png = session loaded [SelectFormat ''image/webp'', Drop [photo_png], Resume] initial"

text \<open>A conversion of the PNG to TIFF, which the primitive of \<open>loaded\<close> does not encode.\<close>

definition tiff_requested :: home where
  "tiff_requested =
     session loaded [SelectFormat ''image/tiff'', ClickConvert, Resume, Resume, Resume] png_selected"

text \<open>Two files dropped one after the other.\<close>

definition two_drops :: home where
  "two_drops = session loaded [Drop [photo_png], Resume, Drop [photo_heic], Resume] initial"

text \<open>
  A click on convert with \<open>photo.png\<close> selected: first the handler waits for
  \<open>imageCompression\<close>, then, that promise fulfilled, for the image to load.
\<close>

definition compressing :: home where
  "compressing = session loaded [ClickConvert] png_selected"

definition decoding :: home where
  "decoding = session loaded [ClickConvert, Resume] png_selected"

text \<open>
  Collaborators of which one fails: the encoder hands \<open>null\<close> to its callback, the
  intermediate image does not load, the compression promise is rejected, the HEIC
  conversion promise is rejected.
\<close>

definition null_encoder :: services where
  "null_encoder = loaded\<lparr> canvas_toBlob := (\<lambda>cv t q. None) \<rparr>"

definition undecodable :: services where
  "undecodable = loaded\<lparr> image_decode := (\<lambda>f. None) \<rparr>"

definition rejecting_compression :: services where
  "rejecting_compression = loaded\<lparr> imageCompression := Some (\<lambda>f opts. Rejected ''out of memory'') \<rparr>"

definition rejecting_heicTo :: services where
  "rejecting_heicTo = loaded\<lparr> heicTo := Some (\<lambda>opts. Rejected ''unsupported type'') \<rparr>"

section \<open>Properties\<close>

subsection \<open>Auxiliary facts: splitting, evaluation of the concrete sessions\<close>

lemma split_js_unfold:
  "split_js c t = takeWhile (\<lambda>x. x \<noteq> c) t #
     (case dropWhile (\<lambda>x. x \<noteq> c) t of [] \<Rightarrow> [] | d # r \<Rightarrow> split_js c r)"
proof (induction t)
  case Nil
  show ?case by simp
next
  case (Cons a t)
  show ?case
  proof (cases "a = c")
    case True
    then show ?thesis by simp
  next
    case False
    have "split_js c (a # t) = (case split_js c t of [] \<Rightarrow> [[a]] | y # ys \<Rightarrow> (a # y) # ys)"
      using False by simp
    also have "\<dots> = (a # takeWhile (\<lambda>x. x \<noteq> c) t) #
         (case dropWhile (\<lambda>x. x \<noteq> c) t of [] \<Rightarrow> [] | d # r \<Rightarrow> split_js c r)"
      by (subst Cons.IH) simp
    finally show ?thesis
      using False by simp
  qed
qed

lemma index_js_split_0: "index_js (split_js c t) 0 = Some (before_first c t)"
  by (subst split_js_unfold) (simp add: before_first_def)

lemma template_Some: "template (Some t) = t"
  by (simp add: template_def)

lemma index_js_split_1: "template (index_js (split_js CHR ''/'' t) (Suc 0)) = subtype t"
proof (cases "dropWhile (\<lambda>x. x \<noteq> CHR ''/'') t")
  case Nil
  have shape: "split_js CHR ''/'' t = [takeWhile (\<lambda>x. x \<noteq> CHR ''/'') t]"
    by (subst split_js_unfold) (simp only: Nil list.case)
  from Nil have "CHR ''/'' \<notin> set t"
    by (auto simp: dropWhile_eq_Nil_conv)
  then show ?thesis
    by (simp add: shape subtype_def template_def)
next
  case (Cons d r)
  have shape: "split_js CHR ''/'' t = takeWhile (\<lambda>x. x \<noteq> CHR ''/'') t # split_js CHR ''/'' r"
    by (subst split_js_unfold) (simp only: Cons list.case)
  have "CHR ''/'' \<in> set t"
  proof (rule ccontr)
    assume "CHR ''/'' \<notin> set t"
    then have "dropWhile (\<lambda>x. x \<noteq> CHR ''/'') t = []"
      by (auto simp: dropWhile_eq_Nil_conv)
    with Cons show False by simp
  qed
  then show ?thesis
    by (simp add: shape Cons subtype_def template_def index_js_split_0)
qed

lemma handleDownload_saves:
  assumes "convertedBlob s = Some b"
  shows "handleDownload s =
           s\<lparr> calls := calls s @
                 [CallSaveAs b
                    ((if originalFileName s = [] then ''converted-image''
                      else before_first CHR ''.'' (originalFileName s))
                     @ ''.'' @ subtype (targetFormat s))] \<rparr>"
  using assms
  by (simp add: handleDownload_def index_js_split_0 index_js_split_1 template_Some)

lemma before_first_one_separator:
  assumes "count_list t c \<le> 1" and "c \<in> set t"
  shows "before_first c t = before_last c t"
proof -
  from \<open>c \<in> set t\<close> obtain xs ys where t: "t = xs @ c # ys" and xs: "c \<notin> set xs"
    by (auto dest: split_list_first)
  with assms(1) have "count_list ys c = 0"
    by simp
  then have ys: "c \<notin> set ys"
    by (simp add: count_list_0_iff)
  have head_part: "takeWhile (\<lambda>x. x \<noteq> c) t = xs"
    using xs by (auto simp: t takeWhile_tail takeWhile_eq_all_conv)
  have "dropWhile (\<lambda>x. x \<noteq> c) (rev ys @ c # rev xs) =
      dropWhile (\<lambda>x. x \<noteq> c) (c # rev xs)"
    by (rule dropWhile_append2) (use ys in auto)
  then have tail_part: "dropWhile (\<lambda>x. x \<noteq> c) (rev t) = c # rev xs"
    by (simp add: t)
  show ?thesis
    by (simp add: before_first_def before_last_def head_part tail_part)
qed

lemma before_first_stem:
  assumes "count_list t CHR ''.'' \<le> 1"
  shows "before_first CHR ''.'' t = stem t"
proof (cases "CHR ''.'' \<in> set t")
  case True
  with assms show ?thesis
    by (simp add: stem_def before_first_one_separator)
next
  case False
  then have "takeWhile (\<lambda>x. x \<noteq> CHR ''.'') t = t"
    by auto
  with False show ?thesis
    by (simp add: stem_def before_first_def)
qed

lemma subtype_STANDARD_FORMATS:
  "map subtype (concat STANDARD_FORMATS) =
     [''jpeg'', ''png'', ''gif'', ''webp'', ''avif'', ''bmp'', ''tiff'']"
  by (simp add: STANDARD_FORMATS_def subtype_def before_first_def)

lemma subtype_HEIC_FORMATS: "map subtype (concat HEIC_FORMATS) = [''jpeg'', ''png'']"
  by (simp add: HEIC_FORMATS_def subtype_def before_first_def)

lemma subtype_inj_on_formats: "inj_on subtype (set (formats s))"
proof -
  have "distinct (map subtype (formats s))"
    by (simp add: formats_def subtype_STANDARD_FORMATS subtype_HEIC_FORMATS)
  then show ?thesis
    by (simp add: distinct_map)
qed

lemmas handler_defs =
  onDrop_def isHeic_settled_def handleConvert_def heicTo_settled_def
  imageCompression_settled_def img_onload_def toBlob_callback_def handleDownload_def
  convert_click_def download_click_def setQuality_def setTargetFormat_def resume_def
  createObjectURL_def

lemmas example_defs =
  loaded_def initial_def photo_heic_def photo_png_def holiday_png_def compressed_png_def
  jpeg_blob_def toBlob_supporting_def

lemma heic_selected_state:
  "heic_selected =
     \<lparr> quality = 80, targetFormat = ''image/jpeg'', isConverting = False,
       previewUrl = Some (0, OfFile photo_heic), convertedBlob = None,
       originalFileName = ''photo.heic'', selectedFile = Some photo_heic, isHeicFile = True,
       object_urls = [(0, OfFile photo_heic)], next_url = 1,
       console = [], calls = [CallIsHeic photo_heic], pending = [] \<rparr>"
  by (simp add: heic_selected_def handler_defs example_defs)

lemma png_selected_state:
  "png_selected =
     \<lparr> quality = 80, targetFormat = ''image/jpeg'', isConverting = False,
       previewUrl = Some (0, OfFile photo_png), convertedBlob = None,
       originalFileName = ''photo.png'', selectedFile = Some photo_png, isHeicFile = False,
       object_urls = [(0, OfFile photo_png)], next_url = 1,
       console = [], calls = [CallIsHeic photo_png], pending = [] \<rparr>"
  by (simp add: png_selected_def handler_defs example_defs)

lemma heic_converted_state:
  "heic_converted =
     \<lparr> quality = 80, targetFormat = ''image/jpeg'', isConverting = False,
       previewUrl = Some (1, OfBlob jpeg_blob), convertedBlob = Some jpeg_blob,
       originalFileName = ''photo.heic'', selectedFile = Some photo_heic, isHeicFile = True,
       object_urls = [(0, OfFile photo_heic), (1, OfBlob jpeg_blob)], next_url = 2,
       console = [],
       calls = [CallIsHeic photo_heic,
                CallHeicTo \<lparr> opt_blob = photo_heic, opt_type = ''image/jpeg'', opt_quality = 4 / 5 \<rparr>],
       pending = [] \<rparr>"
  by (simp add: heic_converted_def heic_selected_state handler_defs loaded_def jpeg_blob_def)

lemma holiday_converted_state:
  "holiday_converted =
     \<lparr> quality = 80, targetFormat = ''image/webp'', isConverting = False,
       previewUrl = Some (2, OfBlob \<lparr> blob_type = ''image/webp'', blob_bytes = [] \<rparr>),
       convertedBlob = Some \<lparr> blob_type = ''image/webp'', blob_bytes = [] \<rparr>,
       originalFileName = ''holiday.2024.png'',
       selectedFile = Some holiday_png, isHeicFile = False,
       object_urls = [(0, OfFile holiday_png), (1, OfFile compressed_png),
                      (2, OfBlob \<lparr> blob_type = ''image/webp'', blob_bytes = [] \<rparr>)],
       next_url = 3, console = [],
       calls = [CallIsHeic holiday_png,
                CallImageCompression holiday_png
                  \<lparr> maxSizeMB = 1, maxWidthOrHeight = 1920, useWebWorker = True \<rparr>,
                CallToBlob \<lparr> canvas_width = 4, canvas_height = 3,
                             canvas_image = Some compressed_png \<rparr> ''image/webp'' (4 / 5)],
       pending = [] \<rparr>"
  by (simp add: holiday_converted_def handler_defs loaded_def initial_def holiday_png_def
       toBlob_supporting_def)

lemma tiff_requested_state:
  "tiff_requested =
     \<lparr> quality = 80, targetFormat = ''image/tiff'', isConverting = False,
       previewUrl = Some (2, OfBlob \<lparr> blob_type = ''image/png'', blob_bytes = [] \<rparr>),
       convertedBlob = Some \<lparr> blob_type = ''image/png'', blob_bytes = [] \<rparr>,
       originalFileName = ''photo.png'', selectedFile = Some photo_png, isHeicFile = False,
       object_urls = [(0, OfFile photo_png), (1, OfFile compressed_png),
                      (2, OfBlob \<lparr> blob_type = ''image/png'', blob_bytes = [] \<rparr>)],
       next_url = 3, console = [],
       calls = [CallIsHeic photo_png,
                CallImageCompression photo_png
                  \<lparr> maxSizeMB = 1, maxWidthOrHeight = 1920, useWebWorker = True \<rparr>,
                CallToBlob \<lparr> canvas_width = 4, canvas_height = 3,
                             canvas_image = Some compressed_png \<rparr> ''image/tiff'' (4 / 5)],
       pending = [] \<rparr>"
  by (simp add: tiff_requested_def png_selected_state handler_defs loaded_def
       toBlob_supporting_def)

lemma compressing_state:
  "compressing =
     png_selected\<lparr> isConverting := True, previewUrl := None,
       calls := [CallIsHeic photo_png,
                 CallImageCompression photo_png
                   \<lparr> maxSizeMB = 1, maxWidthOrHeight = 1920, useWebWorker = True \<rparr>],
       pending := [AwaitImageCompression (Fulfilled compressed_png) ''image/jpeg'' 80] \<rparr>"
  by (simp add: compressing_def png_selected_state handler_defs loaded_def)

lemma decoding_state:
  "decoding =
     png_selected\<lparr> isConverting := False, previewUrl := None,
       object_urls := [(0, OfFile photo_png), (1, OfFile compressed_png)], next_url := 2,
       calls := [CallIsHeic photo_png,
                 CallImageCompression photo_png
                   \<lparr> maxSizeMB = 1, maxWidthOrHeight = 1920, useWebWorker = True \<rparr>],
       pending := [AwaitImageLoad compressed_png True ''image/jpeg'' 80] \<rparr>"
  by (simp add: decoding_def png_selected_state handler_defs loaded_def)

subsection \<open>Auxiliary facts: the quality and the object URLs over a session\<close>

lemma run_task_quality: "quality (run_task sv t s) = quality s"
  by (cases t)
     (simp_all add: isHeic_settled_def heicTo_settled_def imageCompression_settled_def
        img_onload_def toBlob_callback_def createObjectURL_def Let_def
        split: settled.split option.split prod.split)

lemma resume_quality: "quality (resume sv s) = quality s"
  by (simp add: resume_def run_task_quality split: list.split)

lemma handleConvert_quality: "quality (handleConvert sv s) = quality s"
  by (simp add: handleConvert_def Let_def split: option.split)

lemma fire_quality:
  "quality (fire sv e s) = (case e of Slide v \<Rightarrow> range_value 0 100 v | _ \<Rightarrow> quality s)"
  by (cases e)
     (simp_all add: onDrop_def setTargetFormat_def setQuality_def convert_click_def
        download_click_def handleDownload_def handleConvert_quality resume_quality
        Let_def split: list.split option.split)

lemma range_value_bounds: "0 \<le> range_value 0 100 v \<and> range_value 0 100 v \<le> 100"
  by (simp add: range_value_def)

lemma session_quality:
  "0 \<le> quality s \<and> quality s \<le> 100 \<Longrightarrow>
   0 \<le> quality (session sv es s) \<and> quality (session sv es s) \<le> 100"
proof (induction es arbitrary: s)
  case Nil
  then show ?case by simp
next
  case (Cons e es)
  have "0 \<le> quality (fire sv e s) \<and> quality (fire sv e s) \<le> 100"
    using Cons.prems range_value_bounds by (simp add: fire_quality split: event.split)
  then show ?case
    using Cons.IH by simp
qed

lemma session_append: "session sv (es @ es') s = session sv es' (session sv es s)"
  by (induction es arbitrary: s) simp_all

lemma run_task_object_urls: "prefix (object_urls s) (object_urls (run_task sv t s))"
  by (cases t)
     (auto simp: isHeic_settled_def heicTo_settled_def imageCompression_settled_def
        img_onload_def toBlob_callback_def createObjectURL_def Let_def
        split: settled.split option.split)

lemma resume_object_urls: "prefix (object_urls s) (object_urls (resume sv s))"
proof (cases "pending s")
  case Nil
  then show ?thesis by (simp add: resume_def)
next
  case (Cons t ts)
  have "prefix (object_urls (s\<lparr> pending := ts \<rparr>))
          (object_urls (run_task sv t (s\<lparr> pending := ts \<rparr>)))"
    by (rule run_task_object_urls)
  with Cons show ?thesis by (simp add: resume_def)
qed

lemma handleConvert_object_urls: "object_urls (handleConvert sv s) = object_urls s"
  by (simp add: handleConvert_def Let_def split: option.split)

lemma fire_object_urls: "prefix (object_urls s) (object_urls (fire sv e s))"
  by (cases e)
     (simp_all add: onDrop_def setTargetFormat_def setQuality_def convert_click_def
        download_click_def handleDownload_def handleConvert_object_urls resume_object_urls
        Let_def split: list.split option.split)

lemma session_object_urls: "prefix (object_urls s) (object_urls (session sv es s))"
proof (induction es arbitrary: s)
  case Nil
  show ?case by simp
next
  case (Cons e es)
  have "prefix (object_urls s) (object_urls (fire sv e s))"
    by (rule fire_object_urls)
  also have "prefix (object_urls (fire sv e s)) (object_urls (session sv es (fire sv e s)))"
    by (rule Cons.IH)
  finally show ?case by simp
qed

lemma drop_then_resume:
  assumes "isHeic sv = Some classify" and "classify f = Fulfilled h" and "pending s = []"
  shows "pending (session sv [Drop [f], Resume] s) = [] \<and>
         object_urls (session sv [Drop [f], Resume] s) = object_urls s @ [(next_url s, OfFile f)]"
  using assms by (simp add: onDrop_def resume_def isHeic_settled_def createObjectURL_def)

lemma repeated_drops:
  assumes "isHeic sv = Some classify" and "classify f = Fulfilled h"
  shows "pending s = [] \<Longrightarrow>
         pending (session sv (concat (replicate n [Drop [f], Resume])) s) = [] \<and>
         length (object_urls (session sv (concat (replicate n [Drop [f], Resume])) s)) =
           length (object_urls s) + n"
proof (induction n arbitrary: s)
  case 0
  then show ?case by simp
next
  case (Suc n)
  let ?s = "session sv [Drop [f], Resume] s"
  from drop_then_resume [OF assms Suc.prems]
  have idle: "pending ?s = []" and grown: "length (object_urls ?s) = Suc (length (object_urls s))"
    by simp_all
  have "session sv (concat (replicate (Suc n) [Drop [f], Resume])) s =
        session sv (concat (replicate n [Drop [f], Resume])) ?s"
    by simp
  with Suc.IH [OF idle] grown show ?case by simp
qed

lemma preview_allocated:
  "previewUrl (run_task sv (AwaitIsHeic (Fulfilled h) f tf) s) = Some (next_url s, OfFile f) \<and>
   object_urls (run_task sv (AwaitIsHeic (Fulfilled h) f tf) s) =
     object_urls s @ [(next_url s, OfFile f)] \<and>
   previewUrl (run_task sv (AwaitHeicTo (Fulfilled b)) s) = Some (next_url s, OfBlob b) \<and>
   object_urls (run_task sv (AwaitHeicTo (Fulfilled b)) s) =
     object_urls s @ [(next_url s, OfBlob b)] \<and>
   previewUrl (run_task sv (AwaitToBlob (Some b)) s) = Some (next_url s, OfBlob b) \<and>
   object_urls (run_task sv (AwaitToBlob (Some b)) s) =
     object_urls s @ [(next_url s, OfBlob b)]"
  by (simp add: isHeic_settled_def heicTo_settled_def toBlob_callback_def createObjectURL_def)

subsection \<open>A second convert while one is in flight\<close>

text \<open>The convert button does nothing while \<open>isConverting\<close> is set.\<close>

lemma convert_click_while_converting: "isConverting s \<Longrightarrow> convert_click sv s = s"
  by (simp add: convert_click_def)

text \<open>
  Claim C1 at the failing session. After a click on convert with \<open>photo.png\<close> selected,
  while the handler waits for \<open>imageCompression\<close>, \<open>isConverting\<close> is set and a second click
  changes nothing. Once that promise is fulfilled the handler \<open>return\<close>s through \<open>finally\<close>:
  the conversion is still in flight (the image has not loaded, \<open>toBlob\<close> has not been
  called), yet \<open>isConverting\<close> is cleared, and a second click starts a second conversion
  beside the first. \<open>handleConvert\<close> itself has no guard: invoked while \<open>isConverting\<close> is
  set, it also starts a second conversion.
\<close>

theorem second_convert_while_in_flight:
  "isConverting compressing \<and>
   convert_click loaded compressing = compressing \<and>
   pending (handleConvert loaded compressing) =
     [AwaitImageCompression (Fulfilled compressed_png) ''image/jpeg'' 80,
      AwaitImageCompression (Fulfilled compressed_png) ''image/jpeg'' 80] \<and>
   pending decoding = [AwaitImageLoad compressed_png True ''image/jpeg'' 80] \<and>
   \<not> isConverting decoding \<and>
   isConverting (convert_click loaded decoding) \<and>
   pending (convert_click loaded decoding) =
     [AwaitImageLoad compressed_png True ''image/jpeg'' 80,
      AwaitImageCompression (Fulfilled compressed_png) ''image/jpeg'' 80]"
  by (simp add: compressing_state decoding_state png_selected_state convert_click_def
       handleConvert_def loaded_def)

subsection \<open>The result of the generic path and unsupported targets\<close>

text \<open>
  Claim C2, as the code has it. On the generic path, whatever blob \<open>b\<close> the \<open>toBlob\<close>
  callback receives becomes the ConversionResult: its type is not compared with the
  requested \<open>targetFormat\<close>, and nothing is written to the console.
\<close>

theorem generic_path_result:
  assumes "selectedFile s = Some f" and "\<not> isHeicFile s"
    and "imageCompression sv = Some compress" and "pending s = []"
    and "compress f \<lparr> maxSizeMB = 1, maxWidthOrHeight = 1920, useWebWorker = True \<rparr>
           = Fulfilled intermediate"
    and "image_decode sv intermediate = Some (w, h)"
    and "canvas_toBlob sv
           \<lparr> canvas_width = w, canvas_height = h,
             canvas_image = (if getContext2d sv then Some intermediate else None) \<rparr>
           (targetFormat s) (real_of_int (quality s) / 100) = Some b"
  shows "convertedBlob (session sv [Resume, Resume, Resume] (handleConvert sv s)) = Some b \<and>
         console (session sv [Resume, Resume, Resume] (handleConvert sv s)) = console s \<and>
         \<not> isConverting (session sv [Resume, Resume, Resume] (handleConvert sv s)) \<and>
         pending (session sv [Resume, Resume, Resume] (handleConvert sv s)) = []"
  using assms
  by (simp add: handleConvert_def resume_def imageCompression_settled_def img_onload_def
       toBlob_callback_def createObjectURL_def Let_def)

text \<open>
  The theorem for \<open>photo.png\<close> with \<open>image/tiff\<close> requested of a primitive that answers with
  PNG: the PNG blob is the result, and the console stays empty.
\<close>

theorem generic_path_result_witness:
  "selectedFile (setTargetFormat ''image/tiff'' png_selected) = Some photo_png \<and>
   \<not> isHeicFile (setTargetFormat ''image/tiff'' png_selected) \<and>
   convertedBlob (session loaded [Resume, Resume, Resume]
       (handleConvert loaded (setTargetFormat ''image/tiff'' png_selected))) =
     Some \<lparr> blob_type = ''image/png'', blob_bytes = [] \<rparr> \<and>
   console (session loaded [Resume, Resume, Resume]
       (handleConvert loaded (setTargetFormat ''image/tiff'' png_selected))) = []"
proof -
  let ?s = "setTargetFormat ''image/tiff'' png_selected"
  have state: "selectedFile ?s = Some photo_png" "\<not> isHeicFile ?s" "pending ?s = []"
      "console ?s = []" "targetFormat ?s = ''image/tiff''" "quality ?s = 80"
    by (simp_all add: png_selected_state setTargetFormat_def)
  have lib: "imageCompression loaded = Some (\<lambda>f opts. Fulfilled compressed_png)"
      "image_decode loaded compressed_png = Some (4, 3)"
      "getContext2d loaded"
    by (simp_all add: loaded_def)
  have encoded: "canvas_toBlob loaded
      \<lparr> canvas_width = 4, canvas_height = 3,
        canvas_image = (if getContext2d loaded then Some compressed_png else None) \<rparr>
      (targetFormat ?s) (real_of_int (quality ?s) / 100)
      = Some \<lparr> blob_type = ''image/png'', blob_bytes = [] \<rparr>"
    by (simp add: state) (simp add: loaded_def toBlob_supporting_def)
  have fulfilled: "(\<lambda>f opts. Fulfilled compressed_png) photo_png
      \<lparr> maxSizeMB = 1, maxWidthOrHeight = 1920, useWebWorker = True \<rparr> = Fulfilled compressed_png"
    by simp
  note claim = generic_path_result
    [where s = ?s and sv = loaded and f = photo_png
       and compress = "\<lambda>f opts. Fulfilled compressed_png"
       and intermediate = compressed_png and w = 4 and h = 3
       and b = "\<lparr> blob_type = ''image/png'', blob_bytes = [] \<rparr>",
     OF state(1) state(2) lib(1) state(3) fulfilled lib(2) encoded]
  from claim state show ?thesis by simp
qed

text \<open>
  Claim C2 as stated fails. With a raster primitive that supports PNG, JPEG and WebP and
  substitutes PNG otherwise, converting \<open>photo.png\<close> to \<open>image/tiff\<close> ends with a PNG blob
  as the ConversionResult and an empty console.
\<close>

theorem unsupported_target_counterexample:
  "canvas_toBlob loaded = toBlob_supporting [''image/png'', ''image/jpeg'', ''image/webp''] \<and>
   ''image/tiff'' \<notin> set [''image/png'', ''image/jpeg'', ''image/webp''] \<and>
   \<not> isHeicFile tiff_requested \<and>
   targetFormat tiff_requested = ''image/tiff'' \<and>
   convertedBlob tiff_requested = Some \<lparr> blob_type = ''image/png'', blob_bytes = [] \<rparr> \<and>
   console tiff_requested = []"
  by (simp add: tiff_requested_state) (simp add: loaded_def)

subsection \<open>The name of the downloaded file\<close>

text \<open>
  Claim C3, as the code has it by design. With a ConversionResult present whose MIME type
  is the selected target format, and an original name with at most one \<open>.\<close>,
  \<open>download()\<close> saves the result's blob under the original name without its extension (the
  fixed base \<open>converted-image\<close> when the original name is empty), a \<open>.\<close>, and the subtype of
  the result's MIME type written as it stands in the MIME type. The download button does
  the same, being rendered in that state.
\<close>

theorem download_file_name:
  assumes "convertedBlob s = Some b" and "blob_type b = targetFormat s"
    and "count_list (originalFileName s) CHR ''.'' \<le> 1"
  shows "download_click s = handleDownload s \<and>
         calls (handleDownload s) =
           calls s @
             [CallSaveAs b
                ((if originalFileName s = [] then ''converted-image''
                  else stem (originalFileName s))
                 @ ''.'' @ subtype (blob_type b))]"
  using assms
  by (simp add: download_click_def handleDownload_saves before_first_stem)

text \<open>
  The theorem at the HEIC scenario: \<open>photo.heic\<close> converted to \<open>image/jpeg\<close> is saved as
  \<open>photo.jpeg\<close>.
\<close>

theorem download_file_name_witness:
  "convertedBlob heic_converted = Some jpeg_blob \<and>
   blob_type jpeg_blob = targetFormat heic_converted \<and>
   count_list (originalFileName heic_converted) CHR ''.'' \<le> 1 \<and>
   calls (handleDownload heic_converted) =
     calls heic_converted @ [CallSaveAs jpeg_blob ''photo.jpeg'']"
proof -
  have result: "convertedBlob heic_converted = Some jpeg_blob"
    and kind: "blob_type jpeg_blob = targetFormat heic_converted"
    and dots: "count_list (originalFileName heic_converted) CHR ''.'' \<le> 1"
    and name: "originalFileName heic_converted = ''photo.heic''"
    by (simp_all add: heic_converted_state jpeg_blob_def)
  have parts: "stem ''photo.heic'' = ''photo'' \<and> subtype (blob_type jpeg_blob) = ''jpeg''"
    by (simp add: stem_def before_last_def subtype_def before_first_def jpeg_blob_def)
  from download_file_name [OF result kind dots]
  have "calls (handleDownload heic_converted) =
      calls heic_converted @ [CallSaveAs jpeg_blob ''photo.jpeg'']"
    by (simp add: name parts)
  with result kind dots show ?thesis by blast
qed

text \<open>
  Claim C3 as stated fails at its own example: \<open>photo.heic\<close> converted to \<open>image/jpeg\<close> is
  saved as \<open>photo.jpeg\<close>, not as \<open>photo.jpg\<close>.
\<close>

theorem download_file_name_counterexample:
  "convertedBlob heic_converted = Some jpeg_blob \<and>
   blob_type jpeg_blob = ''image/jpeg'' \<and>
   targetFormat heic_converted = ''image/jpeg'' \<and>
   originalFileName heic_converted = ''photo.heic'' \<and>
   calls (handleDownload heic_converted) =
     calls heic_converted @ [CallSaveAs jpeg_blob ''photo.jpeg''] \<and>
   calls (handleDownload heic_converted) \<noteq>
     calls heic_converted @ [CallSaveAs jpeg_blob ''photo.jpg'']"
  by (simp add: heic_converted_state handleDownload_saves subtype_def before_first_def
       jpeg_blob_def)

subsection \<open>Accepting a dropped file\<close>

text \<open>
  Claim C4, as the code has it. With \<open>isHeic\<close> loaded, \<open>onDrop\<close> calls it on the first dropped
  file \<open>f\<close> and suspends, holding \<open>f\<close> and the target format selected at that moment. When
  the classification \<open>h\<close> arrives, in whatever state the page then is, the handler replaces
  the selected file and its name by \<open>f\<close>, records \<open>h\<close>, clears the ConversionResult and sets
  the preview to a new object URL created for \<open>f\<close> itself. The target format becomes
  \<open>image/jpeg\<close> when \<open>f\<close> is HEIC, and otherwise the format held since the drop: with no
  event in between it is left as it was, and a format chosen in between is overwritten.
\<close>

theorem onDrop_accepts_file:
  assumes "isHeic sv = Some classify"
  shows "onDrop sv (f # rest) s =
           s\<lparr> calls := calls s @ [CallIsHeic f],
               pending := pending s @ [AwaitIsHeic (classify f) f (targetFormat s)] \<rparr> \<and>
         run_task sv' (AwaitIsHeic (Fulfilled h) f tf) s' =
           s'\<lparr> isHeicFile := h,
                targetFormat := (if h then ''image/jpeg'' else tf),
                originalFileName := file_name f,
                selectedFile := Some f,
                object_urls := object_urls s' @ [(next_url s', OfFile f)],
                next_url := Suc (next_url s'),
                previewUrl := Some (next_url s', OfFile f),
                convertedBlob := None \<rparr> \<and>
         (classify f = Fulfilled h \<and> pending s = [] \<longrightarrow>
            session sv [Drop (f # rest), Resume] s =
              s\<lparr> isHeicFile := h,
                  targetFormat := (if h then ''image/jpeg'' else targetFormat s),
                  originalFileName := file_name f,
                  selectedFile := Some f,
                  object_urls := object_urls s @ [(next_url s, OfFile f)],
                  next_url := Suc (next_url s),
                  previewUrl := Some (next_url s, OfFile f),
                  convertedBlob := None,
                  calls := calls s @ [CallIsHeic f] \<rparr> \<and>
            session sv [Drop (f # rest), SelectFormat v, Resume] s =
              s\<lparr> isHeicFile := h,
                  targetFormat := (if h then ''image/jpeg'' else targetFormat s),
                  originalFileName := file_name f,
                  selectedFile := Some f,
                  object_urls := object_urls s @ [(next_url s, OfFile f)],
                  next_url := Suc (next_url s),
                  previewUrl := Some (next_url s, OfFile f),
                  convertedBlob := None,
                  calls := calls s @ [CallIsHeic f] \<rparr>)"
  using assms
  by (simp add: onDrop_def resume_def isHeic_settled_def createObjectURL_def
       setTargetFormat_def)

text \<open>
  The theorem after a conversion to WebP: \<open>photo.png\<close> is dropped and GIF is chosen before
  the classification arrives. The file is accepted, the result is cleared, the preview is
  a new URL for \<open>photo.png\<close>, and the target format is WebP again.
\<close>

theorem onDrop_accepts_file_witness:
  "isHeic loaded = Some (\<lambda>f. Fulfilled (file_type f = ''image/heic'')) \<and>
   pending holiday_converted = [] \<and>
   targetFormat holiday_converted = ''image/webp'' \<and>
   convertedBlob holiday_converted \<noteq> None \<and>
   targetFormat (session loaded [Drop [photo_png], SelectFormat ''image/gif'', Resume]
     holiday_converted) = ''image/webp'' \<and>
   selectedFile (session loaded [Drop [photo_png], SelectFormat ''image/gif'', Resume]
     holiday_converted) = Some photo_png \<and>
   convertedBlob (session loaded [Drop [photo_png], SelectFormat ''image/gif'', Resume]
     holiday_converted) = None \<and>
   previewUrl (session loaded [Drop [photo_png], SelectFormat ''image/gif'', Resume]
     holiday_converted) = Some (3, OfFile photo_png)"
proof -
  have before: "pending holiday_converted = []" "targetFormat holiday_converted = ''image/webp''"
      "convertedBlob holiday_converted \<noteq> None" "next_url holiday_converted = 3"
    by (simp_all add: holiday_converted_state)
  have handle: "isHeic loaded = Some (\<lambda>f. Fulfilled (file_type f = ''image/heic''))"
    by (simp add: loaded_def)
  have answer: "Fulfilled (file_type photo_png = ''image/heic'') = Fulfilled False"
    by (simp add: photo_png_def)
  note claim = onDrop_accepts_file
    [OF handle, where f = photo_png and h = False and s = holiday_converted
       and rest = "[]" and v = "''image/gif''"]
  from claim answer before(1)
  have after: "session loaded [Drop [photo_png], SelectFormat ''image/gif'', Resume]
        holiday_converted =
      holiday_converted\<lparr> isHeicFile := False,
        targetFormat := (if False then ''image/jpeg'' else targetFormat holiday_converted),
        originalFileName := file_name photo_png,
        selectedFile := Some photo_png,
        object_urls := object_urls holiday_converted @ [(next_url holiday_converted, OfFile photo_png)],
        next_url := Suc (next_url holiday_converted),
        previewUrl := Some (next_url holiday_converted, OfFile photo_png),
        convertedBlob := None,
        calls := calls holiday_converted @ [CallIsHeic photo_png] \<rparr>"
    by blast
  show ?thesis
    unfolding after using handle before by simp
qed

text \<open>
  Claim C4 as stated fails for a file that is not HEIC: with \<open>image/webp\<close> selected,
  dropping \<open>photo.png\<close> is accepted and the target format stays \<open>image/webp\<close>.
\<close>

theorem onDrop_keeps_targetFormat_counterexample:
  "selectedFile webp_then_png = Some photo_png \<and>
   \<not> isHeicFile webp_then_png \<and>
   previewUrl webp_then_png = Some (0, OfFile photo_png) \<and>
   targetFormat webp_then_png = ''image/webp''"
  by (simp add: webp_then_png_def handler_defs loaded_def initial_def photo_png_def)

subsection \<open>Failures during a conversion\<close>

text \<open>
  Claim C5 at the failing sessions. With \<open>photo.png\<close> selected, a conversion whose
  \<open>toBlob\<close> callback receives \<open>null\<close>, or whose intermediate image never loads, ends with the
  file still selected, no result and \<open>isConverting\<close> cleared, but with nothing written to
  the console. A rejected \<open>imageCompression\<close> or \<open>heicTo\<close> promise ends in the same state
  and is written to the console by the \<open>catch\<close>.
\<close>

theorem encode_failure_not_reported:
  "selectedFile (session null_encoder [ClickConvert, Resume, Resume, Resume] png_selected)
     = Some photo_png \<and>
   convertedBlob (session null_encoder [ClickConvert, Resume, Resume, Resume] png_selected)
     = None \<and>
   \<not> isConverting (session null_encoder [ClickConvert, Resume, Resume, Resume] png_selected) \<and>
   pending (session null_encoder [ClickConvert, Resume, Resume, Resume] png_selected) = [] \<and>
   console (session null_encoder [ClickConvert, Resume, Resume, Resume] png_selected) = [] \<and>
   convertedBlob (session undecodable [ClickConvert, Resume, Resume, Resume] png_selected)
     = None \<and>
   pending (session undecodable [ClickConvert, Resume, Resume, Resume] png_selected) = [] \<and>
   console (session undecodable [ClickConvert, Resume, Resume, Resume] png_selected) = [] \<and>
   convertedBlob (session rejecting_compression [ClickConvert, Resume] png_selected) = None \<and>
   \<not> isConverting (session rejecting_compression [ClickConvert, Resume] png_selected) \<and>
   console (session rejecting_compression [ClickConvert, Resume] png_selected)
     = [ConvertError ''out of memory''] \<and>
   convertedBlob (session rejecting_heicTo [ClickConvert, Resume] heic_selected) = None \<and>
   \<not> isConverting (session rejecting_heicTo [ClickConvert, Resume] heic_selected) \<and>
   console (session rejecting_heicTo [ClickConvert, Resume] heic_selected)
     = [ConvertError ''unsupported type'']"
  by (simp add: png_selected_state heic_selected_state null_encoder_def undecodable_def
       rejecting_compression_def rejecting_heicTo_def handler_defs loaded_def)

subsection \<open>The quality slider\<close>

text \<open>
  Claim C6. The only caller of \<open>setQuality\<close> is the \<open>onChange\<close> of the slider, an \<open>input\<close> of
  type \<open>range\<close> with \<open>min="0"\<close> and \<open>max="100"\<close>. Whatever position is asked of the slider,
  the value passed to \<open>setQuality\<close> is a whole number in \<open>[0, 100]\<close>: a position below 0 is
  stored as 0, a position above 100 as 100, a position in the range as it is, and no other
  part of the state changes. No other event touches the quality, so from the initial page
  (quality 80), and from any state with the quality in range, it stays in \<open>[0, 100]\<close> over
  every session.
\<close>

theorem quality_stays_in_range:
  "fire sv (Slide v) s = setQuality (range_value 0 100 v) s \<and>
   setQuality (range_value 0 100 v) s = s\<lparr> quality := range_value 0 100 v \<rparr> \<and>
   0 \<le> quality (fire sv (Slide v) s) \<and> quality (fire sv (Slide v) s) \<le> 100 \<and>
   (v < 0 \<longrightarrow> quality (fire sv (Slide v) s) = 0) \<and>
   (100 < v \<longrightarrow> quality (fire sv (Slide v) s) = 100) \<and>
   (0 \<le> v \<and> v \<le> 100 \<longrightarrow> quality (fire sv (Slide v) s) = v) \<and>
   (0 \<le> quality s \<and> quality s \<le> 100 \<longrightarrow>
      0 \<le> quality (session sv es s) \<and> quality (session sv es s) \<le> 100) \<and>
   0 \<le> quality (session sv es initial) \<and> quality (session sv es initial) \<le> 100"
proof -
  have slide: "quality (fire sv (Slide v) s) = range_value 0 100 v"
    by (simp add: setQuality_def)
  have start: "0 \<le> quality initial \<and> quality initial \<le> 100"
    by (simp add: initial_def)
  have "fire sv (Slide v) s = setQuality (range_value 0 100 v) s"
    by simp
  moreover have "setQuality (range_value 0 100 v) s = s\<lparr> quality := range_value 0 100 v \<rparr>"
    by (simp add: setQuality_def)
  moreover have "0 \<le> quality (fire sv (Slide v) s) \<and> quality (fire sv (Slide v) s) \<le> 100"
    using range_value_bounds [of v] by (simp only: slide)
  moreover have "v < 0 \<longrightarrow> quality (fire sv (Slide v) s) = 0"
    unfolding slide by (simp add: range_value_def)
  moreover have "100 < v \<longrightarrow> quality (fire sv (Slide v) s) = 100"
    unfolding slide by (simp add: range_value_def)
  moreover have "0 \<le> v \<and> v \<le> 100 \<longrightarrow> quality (fire sv (Slide v) s) = v"
    unfolding slide by (simp add: range_value_def)
  moreover have "0 \<le> quality s \<and> quality s \<le> 100 \<longrightarrow>
      0 \<le> quality (session sv es s) \<and> quality (session sv es s) \<le> 100"
    using session_quality [of s sv es] by blast
  moreover have "0 \<le> quality (session sv es initial) \<and> quality (session sv es initial) \<le> 100"
    using session_quality [OF start] .
  ultimately show ?thesis by blast
qed

text \<open>
  The theorem at three positions asked of the slider, 150, \<open>-1\<close> and 55, and over a session
  that moves the slider between a drop and a conversion.
\<close>

theorem quality_stays_in_range_witness:
  "quality (fire loaded (Slide 150) initial) = 100 \<and>
   quality (fire loaded (Slide (- 1)) initial) = 0 \<and>
   quality (fire loaded (Slide 55) initial) = 55 \<and>
   0 \<le> quality png_selected \<and> quality png_selected \<le> 100 \<and>
   0 \<le> quality (session loaded [Slide 150, ClickConvert, Resume, Slide 7] png_selected) \<and>
   quality (session loaded [Slide 150, ClickConvert, Resume, Slide 7] png_selected) \<le> 100"
proof -
  have start: "0 \<le> quality png_selected \<and> quality png_selected \<le> 100"
    by (simp add: png_selected_state)
  from quality_stays_in_range [of loaded 150 initial]
  have "100 < (150::int) \<longrightarrow> quality (fire loaded (Slide 150) initial) = 100" by blast
  then have high: "quality (fire loaded (Slide 150) initial) = 100" by simp
  from quality_stays_in_range [of loaded "- 1" initial]
  have "(- 1::int) < 0 \<longrightarrow> quality (fire loaded (Slide (- 1)) initial) = 0" by blast
  then have low: "quality (fire loaded (Slide (- 1)) initial) = 0" by simp
  from quality_stays_in_range [of loaded 55 initial]
  have "(0::int) \<le> 55 \<and> (55::int) \<le> 100 \<longrightarrow> quality (fire loaded (Slide 55) initial) = 55"
    by blast
  then have mid: "quality (fire loaded (Slide 55) initial) = 55" by simp
  from quality_stays_in_range
    [of loaded 0 png_selected "[Slide 150, ClickConvert, Resume, Slide 7]"] start
  have "0 \<le> quality (session loaded [Slide 150, ClickConvert, Resume, Slide 7] png_selected) \<and>
    quality (session loaded [Slide 150, ClickConvert, Resume, Slide 7] png_selected) \<le> 100"
    by blast
  with high low mid start show ?thesis by blast
qed

subsection \<open>Preview handles\<close>

text \<open>
  Claim C7, as the code has it. A preview handle is allocated when a dropped file has been
  classified and when a conversion succeeds, on the HEIC path or in the \<open>toBlob\<close> callback:
  each time the new URL becomes the preview reference and joins the live URLs, and the
  URLs live before stay live. The page never releases an object URL: over any session,
  the URLs live at its start are still live at its end, in the same order, among them the
  handle of a superseded preview. Each accepted file adds one: after \<open>n\<close> files dropped and
  classified in turn, \<open>n\<close> more URLs are live, so their number is not bounded.
\<close>

theorem object_urls_never_released:
  "prefix (object_urls s) (object_urls (session sv es s)) \<and>
   (previewUrl s = Some u \<and> u \<in> set (object_urls s) \<longrightarrow>
      u \<in> set (object_urls (session sv es s))) \<and>
   previewUrl (run_task sv (AwaitIsHeic (Fulfilled h) f tf) s) = Some (next_url s, OfFile f) \<and>
   object_urls (run_task sv (AwaitIsHeic (Fulfilled h) f tf) s) =
     object_urls s @ [(next_url s, OfFile f)] \<and>
   previewUrl (run_task sv (AwaitHeicTo (Fulfilled b)) s) = Some (next_url s, OfBlob b) \<and>
   object_urls (run_task sv (AwaitHeicTo (Fulfilled b)) s) =
     object_urls s @ [(next_url s, OfBlob b)] \<and>
   previewUrl (run_task sv (AwaitToBlob (Some b)) s) = Some (next_url s, OfBlob b) \<and>
   object_urls (run_task sv (AwaitToBlob (Some b)) s) =
     object_urls s @ [(next_url s, OfBlob b)] \<and>
   (isHeic sv = Some classify \<and> classify f = Fulfilled h \<and> pending s = [] \<longrightarrow>
      length (object_urls (session sv (concat (replicate n [Drop [f], Resume])) s)) =
        length (object_urls s) + n)"
proof -
  have kept: "prefix (object_urls s) (object_urls (session sv es s))"
    by (rule session_object_urls)
  then have "set (object_urls s) \<subseteq> set (object_urls (session sv es s))"
    by (rule set_mono_prefix)
  then have superseded: "previewUrl s = Some u \<and> u \<in> set (object_urls s) \<longrightarrow>
      u \<in> set (object_urls (session sv es s))"
    by blast
  from kept superseded preview_allocated [of sv h f tf s b]
    repeated_drops [of sv classify f h s n]
  show ?thesis by blast
qed

text \<open>
  The theorem at a fresh page: three files dropped in turn leave three live URLs; the URL
  of the first preview is still live after a later conversion, whose result is previewed
  under a new URL.
\<close>

theorem object_urls_never_released_witness:
  "isHeic loaded = Some (\<lambda>f. Fulfilled (file_type f = ''image/heic'')) \<and>
   pending initial = [] \<and>
   length (object_urls (session loaded (concat (replicate 3 [Drop [photo_png], Resume])) initial))
     = 3 \<and>
   previewUrl png_selected = Some (0, OfFile photo_png) \<and>
   (0, OfFile photo_png) \<in> set (object_urls png_selected) \<and>
   (0, OfFile photo_png) \<in>
     set (object_urls (session loaded [ClickConvert, Resume, Resume, Resume] png_selected)) \<and>
   previewUrl (run_task loaded (AwaitToBlob (Some jpeg_blob)) decoding) =
     Some (2, OfBlob jpeg_blob)"
proof -
  have handle: "isHeic loaded = Some (\<lambda>f. Fulfilled (file_type f = ''image/heic''))"
    by (simp add: loaded_def)
  have answer: "Fulfilled (file_type photo_png = ''image/heic'') = Fulfilled False"
    by (simp add: photo_png_def)
  have idle: "pending initial = [] \<and> object_urls initial = []"
    by (simp add: initial_def)
  have shown: "previewUrl png_selected = Some (0, OfFile photo_png) \<and>
      (0, OfFile photo_png) \<in> set (object_urls png_selected)"
    by (simp add: png_selected_state)
  have counter: "next_url decoding = 2"
    by (simp add: decoding_state)
  note fresh = object_urls_never_released
    [where s = initial and sv = loaded and f = photo_png and h = False and n = 3
       and classify = "\<lambda>f. Fulfilled (file_type f = ''image/heic'')" and es = "[]"]
  note later = object_urls_never_released
    [where s = png_selected and sv = loaded and u = "(0, OfFile photo_png)"
       and es = "[ClickConvert, Resume, Resume, Resume]"]
  note fresh_preview = object_urls_never_released
    [where s = decoding and sv = loaded and b = jpeg_blob]
  from fresh handle answer idle
  have three: "length (object_urls
      (session loaded (concat (replicate 3 [Drop [photo_png], Resume])) initial)) = 3"
    by simp
  from later shown
  have still: "(0, OfFile photo_png) \<in>
      set (object_urls (session loaded [ClickConvert, Resume, Resume, Resume] png_selected))"
    by blast
  from fresh_preview
  have "previewUrl (run_task loaded (AwaitToBlob (Some jpeg_blob)) decoding) =
      Some (next_url decoding, OfBlob jpeg_blob)"
    by blast
  then have replaced: "previewUrl (run_task loaded (AwaitToBlob (Some jpeg_blob)) decoding) =
      Some (2, OfBlob jpeg_blob)"
    by (simp only: counter)
  from handle idle three shown still replaced show ?thesis by blast
qed

text \<open>
  Claim C7 as stated fails: after \<open>photo.png\<close> and then \<open>photo.heic\<close> were dropped, the
  preview is URL 1 and the superseded URL 0 is still live.
\<close>

theorem preview_handle_counterexample:
  "previewUrl two_drops = Some (1, OfFile photo_heic) \<and>
   object_urls two_drops = [(0, OfFile photo_png), (1, OfFile photo_heic)]"
  by (simp add: two_drops_def handler_defs loaded_def initial_def photo_png_def photo_heic_def)

subsection \<open>The calls of the generic path\<close>

text \<open>
  Claim C8, as the code has it. For a selected file that is not HEIC: while the handle
  \<open>imageCompression\<close> is \<open>null\<close>, \<open>handleConvert\<close> calls no collaborator and suspends
  nothing. With the library loaded, it first calls \<open>imageCompression\<close> on the file with
  \<open>maxSizeMB: 1\<close>, \<open>maxWidthOrHeight: 1920\<close> and \<open>useWebWorker: true\<close>, and suspends holding the
  \<open>targetFormat\<close> and \<open>quality\<close> of that moment. Fulfilled with an intermediate file, in
  whatever state the page then is, it calls nothing and waits for the intermediate to load,
  still holding the two values. When the intermediate loads as an image of \<open>w\<close> by \<open>h\<close>, with
  a 2D context obtained, \<open>canvas.toBlob\<close> is called on a canvas of \<open>w\<close> by \<open>h\<close> holding the
  intermediate, with the held target format and the held quality over 100, whatever is
  selected by then: a format chosen and a slider moved while the conversion runs do not
  reach it.
\<close>

theorem generic_path_calls:
  assumes "selectedFile s = Some f" and "\<not> isHeicFile s"
  shows "(imageCompression sv = None \<longrightarrow>
            calls (handleConvert sv s) = calls s \<and> pending (handleConvert sv s) = pending s) \<and>
         (imageCompression sv = Some compress \<longrightarrow>
            calls (handleConvert sv s) =
              calls s @
                [CallImageCompression f
                   \<lparr> maxSizeMB = 1, maxWidthOrHeight = 1920, useWebWorker = True \<rparr>] \<and>
            pending (handleConvert sv s) =
              pending s @
                [AwaitImageCompression
                   (compress f \<lparr> maxSizeMB = 1, maxWidthOrHeight = 1920, useWebWorker = True \<rparr>)
                   (targetFormat s) (quality s)]) \<and>
         calls (run_task sv1 (AwaitImageCompression (Fulfilled intermediate) tf q) s1) = calls s1 \<and>
         pending (run_task sv1 (AwaitImageCompression (Fulfilled intermediate) tf q) s1) =
           pending s1 @ [AwaitImageLoad intermediate (getContext2d sv1) tf q] \<and>
         (image_decode sv2 intermediate = Some (w, h) \<longrightarrow>
            calls (run_task sv2 (AwaitImageLoad intermediate True tf q) s2) =
              calls s2 @
                [CallToBlob
                   \<lparr> canvas_width = w, canvas_height = h, canvas_image = Some intermediate \<rparr>
                   tf (real_of_int q / 100)]) \<and>
         (imageCompression sv = Some compress \<and> pending s = [] \<and>
          compress f \<lparr> maxSizeMB = 1, maxWidthOrHeight = 1920, useWebWorker = True \<rparr>
              = Fulfilled intermediate \<and>
          image_decode sv intermediate = Some (w, h) \<and> getContext2d sv \<longrightarrow>
            calls (session sv [Resume, Resume] (handleConvert sv s)) =
              calls s @
                [CallImageCompression f
                   \<lparr> maxSizeMB = 1, maxWidthOrHeight = 1920, useWebWorker = True \<rparr>,
                 CallToBlob
                   \<lparr> canvas_width = w, canvas_height = h, canvas_image = Some intermediate \<rparr>
                   (targetFormat s) (real_of_int (quality s) / 100)] \<and>
            calls (session sv [SelectFormat v, Resume, Slide k, Resume] (handleConvert sv s)) =
              calls s @
                [CallImageCompression f
                   \<lparr> maxSizeMB = 1, maxWidthOrHeight = 1920, useWebWorker = True \<rparr>,
                 CallToBlob
                   \<lparr> canvas_width = w, canvas_height = h, canvas_image = Some intermediate \<rparr>
                   (targetFormat s) (real_of_int (quality s) / 100)])"
proof -
  have unloaded: "imageCompression sv = None \<longrightarrow>
      calls (handleConvert sv s) = calls s \<and> pending (handleConvert sv s) = pending s"
    using assms by (simp add: handleConvert_def)
  have first: "imageCompression sv = Some compress \<longrightarrow>
      calls (handleConvert sv s) =
        calls s @
          [CallImageCompression f
             \<lparr> maxSizeMB = 1, maxWidthOrHeight = 1920, useWebWorker = True \<rparr>] \<and>
      pending (handleConvert sv s) =
        pending s @
          [AwaitImageCompression
             (compress f \<lparr> maxSizeMB = 1, maxWidthOrHeight = 1920, useWebWorker = True \<rparr>)
             (targetFormat s) (quality s)]"
    using assms by (simp add: handleConvert_def Let_def)
  have compressed:
    "calls (run_task sv1 (AwaitImageCompression (Fulfilled intermediate) tf q) s1) = calls s1 \<and>
     pending (run_task sv1 (AwaitImageCompression (Fulfilled intermediate) tf q) s1) =
       pending s1 @ [AwaitImageLoad intermediate (getContext2d sv1) tf q]"
    by (simp add: imageCompression_settled_def createObjectURL_def)
  have loaded_image: "image_decode sv2 intermediate = Some (w, h) \<longrightarrow>
      calls (run_task sv2 (AwaitImageLoad intermediate True tf q) s2) =
        calls s2 @
          [CallToBlob
             \<lparr> canvas_width = w, canvas_height = h, canvas_image = Some intermediate \<rparr>
             tf (real_of_int q / 100)]"
    by (simp add: img_onload_def Let_def)
  have whole: "imageCompression sv = Some compress \<and> pending s = [] \<and>
      compress f \<lparr> maxSizeMB = 1, maxWidthOrHeight = 1920, useWebWorker = True \<rparr>
          = Fulfilled intermediate \<and>
      image_decode sv intermediate = Some (w, h) \<and> getContext2d sv \<longrightarrow>
        calls (session sv [Resume, Resume] (handleConvert sv s)) =
          calls s @
            [CallImageCompression f
               \<lparr> maxSizeMB = 1, maxWidthOrHeight = 1920, useWebWorker = True \<rparr>,
             CallToBlob
               \<lparr> canvas_width = w, canvas_height = h, canvas_image = Some intermediate \<rparr>
               (targetFormat s) (real_of_int (quality s) / 100)] \<and>
        calls (session sv [SelectFormat v, Resume, Slide k, Resume] (handleConvert sv s)) =
          calls s @
            [CallImageCompression f
               \<lparr> maxSizeMB = 1, maxWidthOrHeight = 1920, useWebWorker = True \<rparr>,
             CallToBlob
               \<lparr> canvas_width = w, canvas_height = h, canvas_image = Some intermediate \<rparr>
               (targetFormat s) (real_of_int (quality s) / 100)]"
    using assms
    by (simp add: handleConvert_def resume_def imageCompression_settled_def img_onload_def
         createObjectURL_def setTargetFormat_def setQuality_def Let_def)
  from unloaded first compressed loaded_image whole show ?thesis
    by blast
qed

text \<open>
  The theorem for \<open>photo.png\<close> with \<open>image/jpeg\<close> at quality 80, while PNG is chosen and the
  slider moved to 10 during the conversion: the compression call, then \<open>toBlob\<close> on a canvas
  of 4 by 3 with \<open>image/jpeg\<close> and quality fraction \<open>80 / 100\<close>. Before the library has
  loaded, nothing is called.
\<close>

theorem generic_path_calls_witness:
  "selectedFile png_selected = Some photo_png \<and>
   \<not> isHeicFile png_selected \<and>
   pending png_selected = [] \<and>
   getContext2d loaded \<and>
   image_decode loaded compressed_png = Some (4, 3) \<and>
   imageCompression unloaded_compression = None \<and>
   calls (handleConvert unloaded_compression png_selected) = [CallIsHeic photo_png] \<and>
   calls (handleConvert loaded png_selected) =
     [CallIsHeic photo_png,
      CallImageCompression photo_png
        \<lparr> maxSizeMB = 1, maxWidthOrHeight = 1920, useWebWorker = True \<rparr>] \<and>
   calls (session loaded [SelectFormat ''image/png'', Resume, Slide 10, Resume]
       (handleConvert loaded png_selected)) =
     [CallIsHeic photo_png,
      CallImageCompression photo_png
        \<lparr> maxSizeMB = 1, maxWidthOrHeight = 1920, useWebWorker = True \<rparr>,
      CallToBlob \<lparr> canvas_width = 4, canvas_height = 3, canvas_image = Some compressed_png \<rparr>
        ''image/jpeg'' (80 / 100)]"
proof -
  have chosen: "selectedFile png_selected = Some photo_png" and kind: "\<not> isHeicFile png_selected"
    and state: "pending png_selected = []" "calls png_selected = [CallIsHeic photo_png]"
      "targetFormat png_selected = ''image/jpeg''" "quality png_selected = 80"
    by (simp_all add: png_selected_state)
  have lib: "imageCompression loaded = Some (\<lambda>f opts. Fulfilled compressed_png)"
      "getContext2d loaded" "image_decode loaded compressed_png = Some (4, 3)"
    by (simp_all add: loaded_def)
  have none: "imageCompression unloaded_compression = None"
    by (simp add: unloaded_compression_def)
  note early = generic_path_calls
    [OF chosen kind, where sv = unloaded_compression]
  note claim = generic_path_calls
    [OF chosen kind, where sv = loaded
       and compress = "\<lambda>f opts. Fulfilled compressed_png"
       and intermediate = compressed_png and w = 4 and h = 3
       and v = "''image/png''" and k = 10]
  from early none state
  have untouched: "calls (handleConvert unloaded_compression png_selected) = [CallIsHeic photo_png]"
    by simp
  from claim lib state
  have first: "calls (handleConvert loaded png_selected) =
      [CallIsHeic photo_png,
       CallImageCompression photo_png
         \<lparr> maxSizeMB = 1, maxWidthOrHeight = 1920, useWebWorker = True \<rparr>]"
    by simp
  from claim lib state
  have then_encode: "calls (session loaded [SelectFormat ''image/png'', Resume, Slide 10, Resume]
        (handleConvert loaded png_selected)) =
      [CallIsHeic photo_png,
       CallImageCompression photo_png
         \<lparr> maxSizeMB = 1, maxWidthOrHeight = 1920, useWebWorker = True \<rparr>,
       CallToBlob \<lparr> canvas_width = 4, canvas_height = 3, canvas_image = Some compressed_png \<rparr>
         ''image/jpeg'' (80 / 100)]"
    by simp
  from chosen kind state lib none untouched first then_encode show ?thesis by blast
qed

text \<open>
  Claim C8 as stated fails while the compression library is not loaded: with \<open>photo.png\<close>
  selected, a click on convert and any number of turns of the event loop call no
  collaborator at all.
\<close>

theorem generic_path_calls_counterexample:
  "selectedFile png_selected = Some photo_png \<and>
   \<not> isHeicFile png_selected \<and>
   calls (session unloaded_compression [ClickConvert, Resume, Resume, Resume] png_selected) =
     calls png_selected \<and>
   calls png_selected = [CallIsHeic photo_png]"
  by (simp add: png_selected_state unloaded_compression_def handler_defs loaded_def)

subsection \<open>Download after a change of target format\<close>

text \<open>
  Claim C9. With a ConversionResult \<open>b\<close> present, choosing another target format \<open>v\<close> leaves
  the result as it is, and a download then saves that same blob (the bytes and the MIME
  type of the earlier conversion) under a name whose extension is the subtype of \<open>v\<close>. When
  \<open>v\<close> and the former \<open>targetFormat\<close> are two different options of the format selector, the
  saved name differs from the one a download would have used before the change.
\<close>

theorem download_follows_targetFormat:
  assumes "convertedBlob s = Some b"
  shows "convertedBlob (setTargetFormat v s) = Some b \<and>
         calls (download_click (setTargetFormat v s)) =
           calls s @
             [CallSaveAs b
                ((if originalFileName s = [] then ''converted-image''
                  else before_first CHR ''.'' (originalFileName s))
                 @ ''.'' @ subtype v)] \<and>
         (v \<in> set (formats s) \<and> targetFormat s \<in> set (formats s) \<and> v \<noteq> targetFormat s \<longrightarrow>
            calls (download_click (setTargetFormat v s)) \<noteq> calls (download_click s))"
proof (intro conjI impI)
  have kept: "convertedBlob (setTargetFormat v s) = Some b"
    using assms by (simp add: setTargetFormat_def)
  then show "convertedBlob (setTargetFormat v s) = Some b" .
  show after: "calls (download_click (setTargetFormat v s)) =
      calls s @
        [CallSaveAs b
           ((if originalFileName s = [] then ''converted-image''
             else before_first CHR ''.'' (originalFileName s))
            @ ''.'' @ subtype v)]"
    using kept
    by (simp add: download_click_def handleDownload_saves [OF kept])
       (simp add: setTargetFormat_def)
  assume different: "v \<in> set (formats s) \<and> targetFormat s \<in> set (formats s) \<and> v \<noteq> targetFormat s"
  then have "subtype v \<noteq> subtype (targetFormat s)"
    using subtype_inj_on_formats [of s] by (auto simp: inj_on_def)
  moreover have "calls (download_click s) =
      calls s @
        [CallSaveAs b
           ((if originalFileName s = [] then ''converted-image''
             else before_first CHR ''.'' (originalFileName s))
            @ ''.'' @ subtype (targetFormat s))]"
    using assms by (simp add: download_click_def handleDownload_saves)
  ultimately show "calls (download_click (setTargetFormat v s)) \<noteq> calls (download_click s)"
    by (simp add: after)
qed

text \<open>
  The theorem at the HEIC scenario: after converting \<open>photo.heic\<close> to JPEG and then selecting
  PNG, the JPEG blob is saved as \<open>photo.png\<close>.
\<close>

theorem download_follows_targetFormat_witness:
  "convertedBlob heic_converted = Some jpeg_blob \<and>
   blob_type jpeg_blob = ''image/jpeg'' \<and>
   ''image/png'' \<in> set (formats heic_converted) \<and>
   targetFormat heic_converted \<in> set (formats heic_converted) \<and>
   ''image/png'' \<noteq> targetFormat heic_converted \<and>
   calls (download_click (setTargetFormat ''image/png'' heic_converted)) =
     calls heic_converted @ [CallSaveAs jpeg_blob ''photo.png''] \<and>
   calls (download_click (setTargetFormat ''image/png'' heic_converted)) \<noteq>
     calls (download_click heic_converted)"
proof -
  have result: "convertedBlob heic_converted = Some jpeg_blob"
    by (simp add: heic_converted_state)
  have offered: "''image/png'' \<in> set (formats heic_converted) \<and>
      targetFormat heic_converted \<in> set (formats heic_converted) \<and>
      ''image/png'' \<noteq> targetFormat heic_converted"
    by (simp add: heic_converted_state formats_def HEIC_FORMATS_def)
  have name: "originalFileName heic_converted = ''photo.heic''"
    by (simp add: heic_converted_state)
  have parts: "subtype ''image/png'' = ''png'' \<and> before_first CHR ''.'' ''photo.heic'' = ''photo''"
    by (simp add: subtype_def before_first_def)
  have kind: "blob_type jpeg_blob = ''image/jpeg''"
    by (simp add: jpeg_blob_def)
  note claim = download_follows_targetFormat [OF result, of "''image/png''"]
  from claim have saved:
    "calls (download_click (setTargetFormat ''image/png'' heic_converted)) =
       calls heic_converted @ [CallSaveAs jpeg_blob ''photo.png'']"
    by (simp add: name parts)
  from claim offered have changed:
    "calls (download_click (setTargetFormat ''image/png'' heic_converted)) \<noteq>
       calls (download_click heic_converted)"
    by blast
  from result kind offered saved changed show ?thesis
    by blast
qed

subsection \<open>Convert before the compression library has loaded\<close>

text \<open>
  Claim C10. With a non-HEIC file selected and the handle \<open>imageCompression\<close> still
  \<open>null\<close>, \<open>handleConvert\<close> clears the preview and the result, takes neither branch and
  ends in \<open>finally\<close>: the page is left with no preview and no result, not converting,
  with nothing written to the console, no collaborator called and no handler suspended.
\<close>

theorem convert_without_compression_library:
  assumes "selectedFile s = Some f" and "\<not> isHeicFile s" and "imageCompression sv = None"
  shows "handleConvert sv s =
           s\<lparr> isConverting := False, previewUrl := None, convertedBlob := None \<rparr> \<and>
         previewUrl (handleConvert sv s) = None \<and>
         convertedBlob (handleConvert sv s) = None \<and>
         \<not> isConverting (handleConvert sv s) \<and>
         console (handleConvert sv s) = console s \<and>
         calls (handleConvert sv s) = calls s \<and>
         pending (handleConvert sv s) = pending s"
  using assms by (simp add: handleConvert_def)

text \<open>
  The theorem after \<open>photo.png\<close> was dropped, with the compression library not loaded:
  the preview of the dropped file (URL 0) is gone and nothing is reported.
\<close>

theorem convert_without_compression_library_witness:
  "selectedFile png_selected = Some photo_png \<and>
   \<not> isHeicFile png_selected \<and>
   imageCompression unloaded_compression = None \<and>
   previewUrl png_selected = Some (0, OfFile photo_png) \<and>
   previewUrl (handleConvert unloaded_compression png_selected) = None \<and>
   convertedBlob (handleConvert unloaded_compression png_selected) = None \<and>
   console (handleConvert unloaded_compression png_selected) = [] \<and>
   pending (handleConvert unloaded_compression png_selected) = []"
proof -
  have chosen: "selectedFile png_selected = Some photo_png"
    and kind: "\<not> isHeicFile png_selected"
    and before: "previewUrl png_selected = Some (0, OfFile photo_png)"
    and quiet: "console png_selected = [] \<and> pending png_selected = []"
    by (simp_all add: png_selected_state)
  have handle: "imageCompression unloaded_compression = None"
    by (simp add: unloaded_compression_def)
  from convert_without_compression_library [OF chosen kind handle] chosen kind handle before quiet
  show ?thesis by simp
qed

end
